theory Spec2Isabelle
  imports Main
begin

section \<open>QR access tokens: issuance and verification (server.js)\<close>

text \<open>
  The server keeps one process-wide object \<open>qrTokenStore\<close>, written by the handler of
  \<open>POST /generate-qr\<close> and read and mutated by the handler of \<open>GET /verify-qr\<close>.
  Each handler is modelled as a function from the request, the values the environment
  supplies during the call (the clock, the fresh uuid, the replies of the external
  services) and the store before the call, to the response, the store after the call
  and the external calls made, in order.
\<close>

subsection \<open>Numbers\<close>

text \<open>
  The numbers of the program are the clock \<open>Date.now()\<close> (an integral number of
  milliseconds), the result of \<open>parseInt\<close> and the sum and products of line 60. They are
  modelled as mathematical integers, with the one non-number \<open>NaN\<close> the code can produce.
  A double represents every integer of magnitude up to \<open>2 ^ 53\<close> exactly; beyond that
  the stored value is the nearest double, and, rounding being monotone, the comparison
  of line 116 against a clock below \<open>2 ^ 53\<close> has the same result as on the integers.
\<close>

datatype jsnum = Num int | NaN

fun js_add :: "jsnum \<Rightarrow> jsnum \<Rightarrow> jsnum" where
  "js_add (Num a) (Num b) = Num (a + b)"
| "js_add _ _ = NaN"

fun js_mul :: "jsnum \<Rightarrow> jsnum \<Rightarrow> jsnum" where
  "js_mul (Num a) (Num b) = Num (a * b)"
| "js_mul _ _ = NaN"

text \<open>The relational operator \<open>a > b\<close>: false as soon as one operand is \<open>NaN\<close>.\<close>

fun js_gt :: "jsnum \<Rightarrow> jsnum \<Rightarrow> bool" where
  "js_gt (Num a) (Num b) = (b < a)"
| "js_gt _ _ = False"

subsection \<open>parseInt of a string, without radix argument\<close>

text \<open>
  Leading white space is skipped, one sign is read, a prefix \<open>0x\<close> or \<open>0X\<close> selects
  radix 16 (radix 10 otherwise), and the longest run of digits of that radix is the
  number; with no digit the result is \<open>NaN\<close>. Characters are the bytes of \<open>char\<close>, so
  the white space is the ASCII white space and the no-break space.
\<close>

definition StrWhiteSpaceChar :: "char \<Rightarrow> bool" where
  "StrWhiteSpaceChar c = ((of_char c :: nat) \<in> set [9, 10, 11, 12, 13, 32, 160])"

definition digit_value :: "char \<Rightarrow> nat option" where
  "digit_value c =
     (let n = (of_char c :: nat) in
      if 48 \<le> n \<and> n \<le> 57 then Some (n - 48)
      else if 97 \<le> n \<and> n \<le> 122 then Some (n - 87)
      else if 65 \<le> n \<and> n \<le> 90 then Some (n - 55)
      else None)"

definition radix_digit :: "nat \<Rightarrow> char \<Rightarrow> bool" where
  "radix_digit R c = (case digit_value c of Some d \<Rightarrow> d < R | None \<Rightarrow> False)"

definition digit_or_zero :: "char \<Rightarrow> nat" where
  "digit_or_zero c = (case digit_value c of Some d \<Rightarrow> d | None \<Rightarrow> 0)"

definition math_int :: "nat \<Rightarrow> string \<Rightarrow> nat" where
  "math_int R Z = foldl (\<lambda>a c. a * R + digit_or_zero c) 0 Z"

definition parseInt :: "string \<Rightarrow> jsnum" where
  "parseInt inputString =
     (let S = dropWhile StrWhiteSpaceChar inputString;
          negative = (case S of c # _ \<Rightarrow> c = CHR ''-'' | [] \<Rightarrow> False);
          S1 = (case S of c # rest \<Rightarrow> if c = CHR ''+'' \<or> c = CHR ''-'' then rest else S
                | [] \<Rightarrow> S);
          hex = (take 2 S1 = ''0x'' \<or> take 2 S1 = ''0X'');
          R = (if hex then 16 else 10);
          S2 = (if hex then drop 2 S1 else S1);
          Z = takeWhile (radix_digit R) S2
      in if Z = [] then NaN
         else Num ((if negative then - 1 else 1) * int (math_int R Z)))"

subsection \<open>The token store\<close>

text \<open>
  The field \<open>status\<close> only ever holds one of three string literals of the source: the
  initial one of line 63 (\<open>Pending\<close>), the one of line 118 (\<open>Expired\<close>) and the one of
  line 163 (\<open>Verified\<close>).
\<close>

datatype status = Pending | Expired | Verified

record token_data =
  phoneNumber :: string
  expiresAt :: jsnum
  isValid :: bool
  purpose :: string
  device_id :: string
  status :: status

type_synonym token_store = "string \<rightharpoonup> token_data"

text \<open>
  \<open>qrTokenStore\<close> is a plain object literal, so reading \<open>qrTokenStore[token]\<close> finds
  the store's own property of that name and otherwise the property of that name of
  \<open>Object.prototype\<close>: a function or an object, which is truthy and has none of the
  fields of a record.
\<close>

definition object_prototype_keys :: "string list" where
  "object_prototype_keys =
     [''constructor'', ''__defineGetter__'', ''__defineSetter__'', ''hasOwnProperty'',
      ''__lookupGetter__'', ''__lookupSetter__'', ''isPrototypeOf'',
      ''propertyIsEnumerable'', ''toString'', ''valueOf'', ''__proto__'',
      ''toLocaleString'']"

datatype property = Undefined | Own token_data | Inherited

definition get_property :: "token_store \<Rightarrow> string \<Rightarrow> property" where
  "get_property st k =
     (case st k of
        Some r \<Rightarrow> Own r
      | None \<Rightarrow> if k \<in> set object_prototype_keys then Inherited else Undefined)"

subsection \<open>Responses, exceptions and external calls\<close>

text \<open>
  A handler either sends a response (an HTTP status and a body) or ends with an
  exception that nothing in the handler catches, in which case the handler itself has
  sent nothing. The bodies are the fixed texts and pages of the source, one constructor
  each.
\<close>

datatype body =
    MissingInputText
  | ResultPage string string
  | AxiosFailureText string
  | ServerFailureText
  | NoTokenText
  | InvalidQrText
  | ExpiredQrText
  | UsedQrText
  | UsedQrStatusText status
  | SuccessPage string

datatype exn =
    ListingUnavailable string
  | AxiosError string
  | TypeError

datatype outcome = Responded nat body | Threw exn

record event_payload =
  ev_device_id :: string
  ev_phone :: string
  ev_purpose :: string
  ev_requested_at :: int
  ev_status :: status

datatype ext_call =
    GetQrEvents
  | PostQrEvent event_payload
  | QrToDataURL string
  | SendOne string string

record result =
  resp :: outcome
  store_after :: token_store
  calls :: "ext_call list"

text \<open>The status the handler passed to \<open>res.status\<close> (200 when it sent without one).\<close>

fun status_sent :: "outcome \<Rightarrow> nat option" where
  "status_sent (Responded code _) = Some code"
| "status_sent (Threw _) = None"

subsection \<open>Issuance: POST /generate-qr\<close>

text \<open>
  The body fields are those the form of the index page sends: each is absent or a
  string (the handler on any parsed body is \<open>post_generate_qr\<close> below).
  \<open>!x\<close> holds of an absent field and of the empty string.
\<close>

definition falsy :: "string option \<Rightarrow> bool" where
  "falsy x = (case x of None \<Rightarrow> True | Some s \<Rightarrow> s = [])"

datatype js_error = JsError bool string

datatype qr_reply = QrRejected js_error | QrResolved string

datatype sms_reply = SmsRejected js_error | SmsResolved

text \<open>
  \<open>uuid\<close> is the value of \<open>uuidv4()\<close>, a string of 36 characters; \<open>issued_at\<close> is
  \<open>Date.now()\<close> at line 60.
\<close>

record gen_env =
  uuid :: string
  issued_at :: int
  public_host :: string
  qr_reply :: qr_reply
  sms_reply :: sms_reply

definition uuid_shaped :: "string \<Rightarrow> bool" where
  "uuid_shaped t = (length t = 36)"

definition auth_url :: "string \<Rightarrow> string \<Rightarrow> string" where
  "auth_url host token = host @ ''/verify-qr?token='' @ token"

text \<open>The \<open>catch\<close> block of lines 86 to 93.\<close>

fun catch_generate :: "js_error \<Rightarrow> outcome" where
  "catch_generate (JsError is_axios msg) =
     (if is_axios then Responded 500 (AxiosFailureText msg)
      else Responded 500 ServerFailureText)"

definition generate_qr ::
  "string option \<Rightarrow> string option \<Rightarrow> gen_env \<Rightarrow> token_store \<Rightarrow> result" where
  "generate_qr body_phoneNumber body_validTime e st =
     (case (body_phoneNumber, body_validTime) of
        (Some pn, Some vt) \<Rightarrow>
          if pn = [] \<or> vt = [] then
            \<lparr>resp = Responded 400 MissingInputText, store_after = st, calls = []\<rparr>
          else
            (let phone = filter (\<lambda>c. c \<noteq> CHR ''-'') pn;
                 token = uuid e;
                 expires = js_add (Num (issued_at e))
                             (js_mul (js_mul (parseInt vt) (Num 60)) (Num 1000));
                 st' = st(token \<mapsto>
                         \<lparr>phoneNumber = phone, expiresAt = expires, isValid = True,
                          purpose = ''Visitor'', device_id = ''device'',
                          status = Pending\<rparr>);
                 authUrl = auth_url (public_host e) token
             in case qr_reply e of
                  QrRejected err \<Rightarrow>
                    \<lparr>resp = catch_generate err, store_after = st',
                     calls = [QrToDataURL authUrl]\<rparr>
                | QrResolved qrImageDataUrl \<Rightarrow>
                    (case sms_reply e of
                       SmsRejected err \<Rightarrow>
                         \<lparr>resp = catch_generate err, store_after = st',
                          calls = [QrToDataURL authUrl, SendOne phone authUrl]\<rparr>
                     | SmsResolved \<Rightarrow>
                         \<lparr>resp = Responded 200 (ResultPage qrImageDataUrl phone),
                          store_after = st',
                          calls = [QrToDataURL authUrl, SendOne phone authUrl]\<rparr>))
      | _ \<Rightarrow> \<lparr>resp = Responded 400 MissingInputText, store_after = st, calls = []\<rparr>)"

subsection \<open>Verification: GET /verify-qr\<close>

text \<open>
  The data of the reply to \<open>GET /qr-events\<close>, as far as lines 134 and 135 look at it:
  \<open>null\<close> or \<open>undefined\<close>, an array of some length, an object with its field
  \<open>qr_events\<close> (\<open>JNull\<close> when it has none), or any other value with its truthiness.
\<close>

datatype js_data = JNull | JArray nat | JObject js_data | JOther bool

fun truthy :: "js_data \<Rightarrow> bool" where
  "truthy JNull = False"
| "truthy (JOther b) = b"
| "truthy _ = True"

datatype get_reply = GetRejected string | GetResolved js_data

datatype post_reply = PostRejected string | PostResolved

text \<open>
  The \<open>try\<close> block of lines 132 to 141: it ends with the exception of line 140 when the
  request is rejected and when reading \<open>qr_events\<close> of a \<open>null\<close> reply throws, and
  with the length it logs otherwise.
\<close>

fun precheck :: "get_reply \<Rightarrow> exn + nat" where
  "precheck (GetRejected msg) = Inl (ListingUnavailable msg)"
| "precheck (GetResolved JNull) = Inl (ListingUnavailable ''TypeError'')"
| "precheck (GetResolved d) =
     (let field = (case d of JObject f \<Rightarrow> f | _ \<Rightarrow> JNull);
          events = (if truthy field then field else d)
      in Inr (case events of JArray n \<Rightarrow> n | _ \<Rightarrow> 0))"

text \<open>
  \<open>clock\<close> is \<open>Date.now()\<close> at line 116 and \<open>stamp\<close> the time read at line 129.
  The query parameter \<open>token\<close> is absent or a string, the name under which line 110
  reads the store. \<open>verify_qr\<close> is the handler served with no other request running
  between its two \<open>await\<close>s; its segments are given one by one further below.
\<close>

record verify_env =
  clock :: int
  stamp :: int
  get_reply :: get_reply
  post_reply :: post_reply

definition verify_qr :: "string option \<Rightarrow> verify_env \<Rightarrow> token_store \<Rightarrow> result" where
  "verify_qr token e st =
     (case token of
        None \<Rightarrow> \<lparr>resp = Responded 400 NoTokenText, store_after = st, calls = []\<rparr>
      | Some t \<Rightarrow>
          if t = [] then \<lparr>resp = Responded 400 NoTokenText, store_after = st, calls = []\<rparr>
          else
            (case get_property st t of
               Undefined \<Rightarrow>
                 \<lparr>resp = Responded 404 InvalidQrText, store_after = st, calls = []\<rparr>
             | Inherited \<Rightarrow>
                 \<comment> \<open>\<open>expiresAt\<close> and \<open>isValid\<close> are \<open>undefined\<close>: \<open>NaN\<close> and falsy\<close>
                 if js_gt (Num (clock e)) NaN then
                   \<lparr>resp = Responded 410 ExpiredQrText, store_after = st, calls = []\<rparr>
                 else \<lparr>resp = Responded 409 UsedQrText, store_after = st, calls = []\<rparr>
             | Own tokenData \<Rightarrow>
                 if js_gt (Num (clock e)) (expiresAt tokenData) then
                   \<lparr>resp = Responded 410 ExpiredQrText,
                    store_after = st(t \<mapsto> tokenData\<lparr>isValid := False, status := Expired\<rparr>),
                    calls = []\<rparr>
                 else if \<not> isValid tokenData then
                   \<lparr>resp = Responded 409 UsedQrText, store_after = st, calls = []\<rparr>
                 else if status tokenData \<noteq> Pending then
                   \<lparr>resp = Responded 409 (UsedQrStatusText (status tokenData)),
                    store_after = st, calls = []\<rparr>
                 else
                   (case precheck (get_reply e) of
                      Inl err \<Rightarrow>
                        \<lparr>resp = Threw err, store_after = st, calls = [GetQrEvents]\<rparr>
                    | Inr currentDbLength \<Rightarrow>
                        (let externalEventPayload =
                               \<lparr>ev_device_id = device_id tokenData,
                                ev_phone = phoneNumber tokenData,
                                ev_purpose = purpose tokenData,
                                ev_requested_at = stamp e,
                                ev_status = status tokenData\<rparr>;
                             made = [GetQrEvents, PostQrEvent externalEventPayload]
                         in case post_reply e of
                              PostRejected msg \<Rightarrow>
                                \<lparr>resp = Threw (AxiosError msg), store_after = st,
                                 calls = made\<rparr>
                            | PostResolved \<Rightarrow>
                                \<lparr>resp = Responded 200 (SuccessPage (phoneNumber tokenData)),
                                 store_after =
                                   st(t \<mapsto> tokenData\<lparr>isValid := False, status := Verified\<rparr>),
                                 calls = made\<rparr>))))"

subsection \<open>Sequences of requests\<close>

datatype request =
    GenerateQr "string option" "string option" gen_env
  | VerifyQr "string option" verify_env

fun handle :: "request \<Rightarrow> token_store \<Rightarrow> result" where
  "handle (GenerateQr body_phoneNumber body_validTime e) st =
     generate_qr body_phoneNumber body_validTime e st"
| "handle (VerifyQr token e) st = verify_qr token e st"

fun run :: "request list \<Rightarrow> token_store \<Rightarrow> token_store" where
  "run [] st = st"
| "run (rq # rqs) st = run rqs (store_after (handle rq st))"

text \<open>
  The generator yields a new identifier at every issuance: along the run, each issued
  uuid has the shape of one and is not yet a key of the store.
\<close>

fun fresh_uuids :: "request list \<Rightarrow> token_store \<Rightarrow> bool" where
  "fresh_uuids [] st = True"
| "fresh_uuids (rq # rqs) st =
     ((case rq of
         GenerateQr _ _ e \<Rightarrow> uuid_shaped (uuid e) \<and> st (uuid e) = None
       | VerifyQr _ _ \<Rightarrow> True)
      \<and> fresh_uuids rqs (store_after (handle rq st)))"

subsection \<open>Decimal numerals\<close>



subsection \<open>Sample values\<close>

text \<open>
  A record issued at time 0 for one second, a store holding it, and environments, for
  the concrete instances of the theorems below.
\<close>

definition demo_record :: token_data where
  "demo_record =
     \<lparr>phoneNumber = ''01012345678'', expiresAt = Num 1000, isValid = True,
      purpose = ''Visitor'', device_id = ''device'', status = Pending\<rparr>"

definition demo_store :: token_store where
  "demo_store = Map.empty(''tok'' \<mapsto> demo_record)"

definition demo_env :: "int \<Rightarrow> get_reply \<Rightarrow> post_reply \<Rightarrow> verify_env" where
  "demo_env c g p = \<lparr>clock = c, stamp = c, get_reply = g, post_reply = p\<rparr>"

definition demo_uuid :: string where
  "demo_uuid = ''123e4567-e89b-42d3-a456-426614174000''"

definition demo_uuid2 :: string where
  "demo_uuid2 = ''9b2e4f60-1c3d-4a5b-8e7f-0123456789ab''"

definition demo_gen :: "qr_reply \<Rightarrow> sms_reply \<Rightarrow> gen_env" where
  "demo_gen q s =
     \<lparr>uuid = demo_uuid, issued_at = 1000, public_host = ''http://localhost:3000'',
      qr_reply = q, sms_reply = s\<rparr>"

subsection \<open>Issuance on any parsed body\<close>

text \<open>
  Both body parsers are installed (lines 24 and 25), so a field of \<open>req.body\<close> is
  absent, a string, or another value (a number, a boolean, \<open>null\<close>, an array, an
  object). Of a value that is not a string the handler uses its truthiness (line 51),
  that it has no method \<open>replace\<close> (line 55) and the string \<open>parseInt\<close> converts it to
  (line 60); \<open>JNonString\<close> carries the first and the last.
\<close>

datatype js_value = JUndefined | JString string | JNonString bool string

fun is_falsy :: "js_value \<Rightarrow> bool" where
  "is_falsy JUndefined = True"
| "is_falsy (JString s) = (s = [])"
| "is_falsy (JNonString truthy_value _) = (\<not> truthy_value)"

fun to_string :: "js_value \<Rightarrow> string" where
  "to_string JUndefined = ''undefined''"
| "to_string (JString s) = s"
| "to_string (JNonString _ s) = s"

fun form_field :: "string option \<Rightarrow> js_value" where
  "form_field None = JUndefined"
| "form_field (Some s) = JString s"

text \<open>
  The handler of \<open>POST /generate-qr\<close> on any body. Line 55 is outside the \<open>try\<close>: on
  a phone number that is not a string the call of \<open>replace\<close> throws a \<open>TypeError\<close>
  that nothing in the handler catches. On the fields a form sends it is \<open>generate_qr\<close>.
\<close>

definition post_generate_qr ::
  "js_value \<Rightarrow> js_value \<Rightarrow> gen_env \<Rightarrow> token_store \<Rightarrow> result" where
  "post_generate_qr body_phoneNumber body_validTime e st =
     (if is_falsy body_phoneNumber \<or> is_falsy body_validTime then
        \<lparr>resp = Responded 400 MissingInputText, store_after = st, calls = []\<rparr>
      else
        (case body_phoneNumber of
           JString pn \<Rightarrow>
             (let phone = filter (\<lambda>c. c \<noteq> CHR ''-'') pn;
                  token = uuid e;
                  expires = js_add (Num (issued_at e))
                              (js_mul (js_mul (parseInt (to_string body_validTime)) (Num 60))
                                 (Num 1000));
                  st' = st(token \<mapsto>
                          \<lparr>phoneNumber = phone, expiresAt = expires, isValid = True,
                           purpose = ''Visitor'', device_id = ''device'',
                           status = Pending\<rparr>);
                  authUrl = auth_url (public_host e) token
              in case qr_reply e of
                   QrRejected err \<Rightarrow>
                     \<lparr>resp = catch_generate err, store_after = st',
                      calls = [QrToDataURL authUrl]\<rparr>
                 | QrResolved qrImageDataUrl \<Rightarrow>
                     (case sms_reply e of
                        SmsRejected err \<Rightarrow>
                          \<lparr>resp = catch_generate err, store_after = st',
                           calls = [QrToDataURL authUrl, SendOne phone authUrl]\<rparr>
                      | SmsResolved \<Rightarrow>
                          \<lparr>resp = Responded 200 (ResultPage qrImageDataUrl phone),
                           store_after = st',
                           calls = [QrToDataURL authUrl, SendOne phone authUrl]\<rparr>))
         | _ \<Rightarrow> \<lparr>resp = Threw TypeError, store_after = st, calls = []\<rparr>))"


subsection \<open>Verification, segment by segment\<close>

text \<open>
  The handler of \<open>GET /verify-qr\<close> is an \<open>async\<close> function: it runs from line 102 to
  the call of \<open>axios.get\<close> at line 133 and suspends; resumed with the reply, it runs
  on to the call of \<open>axios.post\<close> at line 159 and suspends again; resumed, it runs
  lines 160 to 167. Each segment runs to its end without interruption, but between two
  segments the event loop may run segments of other requests. \<open>verify_qr\<close> above is the
  three segments run on one store, with nothing in between.

  While suspended the handler holds \<open>tokenData\<close>, the record object itself. The store
  never removes a key and, issued uuids being new, never puts another object under a
  key, so the object is the store's record under the scanned token: \<open>AwaitingGet t\<close>
  stands for a handler suspended on the record under \<open>t\<close>, and the later segments
  take the record's current fields as an argument.
\<close>

datatype scan_progress = Answered outcome token_store | AwaitingGet string

text \<open>Lines 102 to 133, at the clock \<open>date_now\<close>.\<close>

definition verify_begin :: "string option \<Rightarrow> int \<Rightarrow> token_store \<Rightarrow> scan_progress" where
  "verify_begin token date_now st =
     (case token of
        None \<Rightarrow> Answered (Responded 400 NoTokenText) st
      | Some t \<Rightarrow>
          if t = [] then Answered (Responded 400 NoTokenText) st
          else
            (case get_property st t of
               Undefined \<Rightarrow> Answered (Responded 404 InvalidQrText) st
             | Inherited \<Rightarrow>
                 if js_gt (Num date_now) NaN then Answered (Responded 410 ExpiredQrText) st
                 else Answered (Responded 409 UsedQrText) st
             | Own tokenData \<Rightarrow>
                 if js_gt (Num date_now) (expiresAt tokenData) then
                   Answered (Responded 410 ExpiredQrText)
                     (st(t \<mapsto> tokenData\<lparr>isValid := False, status := Expired\<rparr>))
                 else if \<not> isValid tokenData then Answered (Responded 409 UsedQrText) st
                 else if status tokenData \<noteq> Pending then
                   Answered (Responded 409 (UsedQrStatusText (status tokenData))) st
                 else AwaitingGet t))"

text \<open>
  Lines 134 to 159, resumed with the reply to the GET: the exception of line 140, or
  the payload that is posted. \<open>currentTimestamp\<close> was read at line 129.
\<close>

definition verify_after_get :: "token_data \<Rightarrow> int \<Rightarrow> get_reply \<Rightarrow> exn + event_payload" where
  "verify_after_get tokenData currentTimestamp reply =
     (case precheck reply of
        Inl err \<Rightarrow> Inl err
      | Inr currentDbLength \<Rightarrow>
          Inr \<lparr>ev_device_id = device_id tokenData, ev_phone = phoneNumber tokenData,
               ev_purpose = purpose tokenData, ev_requested_at = currentTimestamp,
               ev_status = status tokenData\<rparr>)"

text \<open>
  Lines 159 to 167, resumed with the reply to the POST: the outcome and the record as
  the segment leaves it. No check of lines 116 to 126 is made again.
\<close>

definition verify_after_post :: "token_data \<Rightarrow> post_reply \<Rightarrow> outcome \<times> token_data" where
  "verify_after_post tokenData reply =
     (case reply of
        PostRejected msg \<Rightarrow> (Threw (AxiosError msg), tokenData)
      | PostResolved \<Rightarrow>
          (Responded 200 (SuccessPage (phoneNumber tokenData)),
           tokenData\<lparr>isValid := False, status := Verified\<rparr>))"





section \<open>Evaluation and helper lemmas\<close>


lemmas demo_defs = demo_record_def demo_store_def demo_env_def

lemmas gen_defs = demo_uuid_def demo_gen_def

lemmas eval_defs = demo_defs gen_defs demo_uuid2_def verify_qr_def generate_qr_def get_property_def
  object_prototype_keys_def uuid_shaped_def parseInt_def StrWhiteSpaceChar_def radix_digit_def
  digit_value_def digit_or_zero_def math_int_def auth_url_def Let_def falsy_def

subsection \<open>parseInt reads a decimal numeral back\<close>












lemma parseInt_abc: "parseInt ''abc'' = NaN"
  by (simp add: eval_defs)

lemma js_mul_minutes: "js_mul (js_mul x (Num 60)) (Num 1000) = js_mul x (Num 60000)"
  by (cases x) simp_all

subsection \<open>The branches of the verification handler\<close>

text \<open>
  With a record of its own under the token, the handler is the chain of checks of lines
  116 to 126 followed by the two external calls.
\<close>

lemma verify_qr_Own:
  "t \<noteq> [] \<Longrightarrow> st t = Some r \<Longrightarrow>
   verify_qr (Some t) e st =
     (if js_gt (Num (clock e)) (expiresAt r) then
        \<lparr>resp = Responded 410 ExpiredQrText,
         store_after = st(t \<mapsto> r\<lparr>isValid := False, status := Expired\<rparr>), calls = []\<rparr>
      else if \<not> isValid r then
        \<lparr>resp = Responded 409 UsedQrText, store_after = st, calls = []\<rparr>
      else if status r \<noteq> Pending then
        \<lparr>resp = Responded 409 (UsedQrStatusText (status r)), store_after = st, calls = []\<rparr>
      else
        (case precheck (get_reply e) of
           Inl err \<Rightarrow> \<lparr>resp = Threw err, store_after = st, calls = [GetQrEvents]\<rparr>
         | Inr n \<Rightarrow>
             (case post_reply e of
                PostRejected msg \<Rightarrow>
                  \<lparr>resp = Threw (AxiosError msg), store_after = st,
                   calls = [GetQrEvents,
                     PostQrEvent \<lparr>ev_device_id = device_id r, ev_phone = phoneNumber r,
                       ev_purpose = purpose r, ev_requested_at = stamp e,
                       ev_status = status r\<rparr>]\<rparr>
              | PostResolved \<Rightarrow>
                  \<lparr>resp = Responded 200 (SuccessPage (phoneNumber r)),
                   store_after = st(t \<mapsto> r\<lparr>isValid := False, status := Verified\<rparr>),
                   calls = [GetQrEvents,
                     PostQrEvent \<lparr>ev_device_id = device_id r, ev_phone = phoneNumber r,
                       ev_purpose = purpose r, ev_requested_at = stamp e,
                       ev_status = status r\<rparr>]\<rparr>)))"
  by (auto simp: verify_qr_def get_property_def Let_def split: sum.split post_reply.split)

lemma verify_qr_other_key:
  "k \<noteq> t \<Longrightarrow> store_after (verify_qr (Some t) e st) k = st k"
  by (auto simp: verify_qr_def get_property_def Let_def
      split: option.splits property.splits sum.splits post_reply.splits if_splits)

lemma verify_qr_None_store: "store_after (verify_qr None e st) = st"
  by (simp add: verify_qr_def)

lemma verify_qr_empty_token: "store_after (verify_qr (Some []) e st) = st"
  by (simp add: verify_qr_def)

text \<open>
  A token that is neither a key of the store nor the name of an inherited property is
  answered with 404, and nothing changes.
\<close>

lemma verify_qr_unknown_token:
  "t \<noteq> [] \<Longrightarrow> st t = None \<Longrightarrow> t \<notin> set object_prototype_keys \<Longrightarrow>
   verify_qr (Some t) e st =
     \<lparr>resp = Responded 404 InvalidQrText, store_after = st, calls = []\<rparr>"
  by (simp add: verify_qr_def get_property_def)

subsection \<open>What a request leaves of a record\<close>

lemma verify_qr_keeps_record:
  assumes "st k = Some r"
  shows "\<exists>r'. store_after (verify_qr token e st) k = Some r'
           \<and> phoneNumber r' = phoneNumber r \<and> expiresAt r' = expiresAt r
           \<and> purpose r' = purpose r \<and> device_id r' = device_id r
           \<and> (\<not> isValid r \<longrightarrow> \<not> isValid r')
           \<and> (status r \<noteq> Pending \<longrightarrow> status r' \<noteq> Pending)"
proof (cases token)
  case None
  then show ?thesis using assms by (simp add: verify_qr_None_store)
next
  case (Some t)
  show ?thesis
  proof (cases "k = t \<and> t \<noteq> []")
    case True
    then show ?thesis using assms Some
      by (auto simp: verify_qr_Own split: sum.splits post_reply.splits)
  next
    case False
    then show ?thesis using assms Some
      by (cases "t = []") (auto simp: verify_qr_other_key, simp add: verify_qr_def)
  qed
qed

lemma generate_qr_missing:
  "falsy pn \<or> falsy vt \<Longrightarrow>
   generate_qr pn vt e st = \<lparr>resp = Responded 400 MissingInputText, store_after = st, calls = []\<rparr>"
  by (auto simp: generate_qr_def falsy_def split: option.splits)

lemma generate_qr_stores:
  "p \<noteq> [] \<Longrightarrow> v \<noteq> [] \<Longrightarrow>
   store_after (generate_qr (Some p) (Some v) e st) =
     st(uuid e \<mapsto>
        \<lparr>phoneNumber = filter (\<lambda>c. c \<noteq> CHR ''-'') p,
         expiresAt = js_add (Num (issued_at e)) (js_mul (parseInt v) (Num 60000)),
         isValid = True, purpose = ''Visitor'', device_id = ''device'', status = Pending\<rparr>)"
  by (simp add: generate_qr_def Let_def js_mul_minutes split: qr_reply.splits sms_reply.splits)

lemma generate_qr_store:
  "store_after (generate_qr pn vt e st) = st \<or>
   (\<exists>r. store_after (generate_qr pn vt e st) = st(uuid e \<mapsto> r))"
  by (auto simp: generate_qr_def Let_def
      split: option.splits qr_reply.splits sms_reply.splits)

lemma generate_qr_keeps_record:
  assumes "st k = Some r" "st (uuid e) = None"
  shows "store_after (generate_qr pn vt e st) k = Some r"
  using generate_qr_store [of pn vt e st] assms by auto

lemma not_falsy: "\<not> falsy x \<longleftrightarrow> (\<exists>s. x = Some s \<and> s \<noteq> [])"
  by (cases x) (simp_all add: falsy_def)

lemma uuid_shaped_nonempty: "uuid_shaped t \<Longrightarrow> t \<noteq> []"
  by (auto simp: uuid_shaped_def)

lemma handle_keeps_record:
  assumes "st k = Some r"
    and "case rq of GenerateQr _ _ e \<Rightarrow> uuid_shaped (uuid e) \<and> st (uuid e) = None
         | VerifyQr _ _ \<Rightarrow> True"
  shows "\<exists>r'. store_after (handle rq st) k = Some r'
           \<and> phoneNumber r' = phoneNumber r \<and> expiresAt r' = expiresAt r
           \<and> purpose r' = purpose r \<and> device_id r' = device_id r
           \<and> (\<not> isValid r \<longrightarrow> \<not> isValid r')
           \<and> (status r \<noteq> Pending \<longrightarrow> status r' \<noteq> Pending)"
proof (cases rq)
  case (GenerateQr pn vt e)
  then show ?thesis using assms generate_qr_keeps_record [of st k r e pn vt] by simp
next
  case (VerifyQr token e)
  then show ?thesis using assms(1) verify_qr_keeps_record [of st k r token e] by simp
qed

lemma run_keeps_record:
  "fresh_uuids rqs st \<Longrightarrow> st k = Some r \<Longrightarrow>
   \<exists>r'. run rqs st k = Some r'
      \<and> phoneNumber r' = phoneNumber r \<and> expiresAt r' = expiresAt r
      \<and> purpose r' = purpose r \<and> device_id r' = device_id r
      \<and> (\<not> isValid r \<longrightarrow> \<not> isValid r')
      \<and> (status r \<noteq> Pending \<longrightarrow> status r' \<noteq> Pending)"
proof (induction rqs arbitrary: st r)
  case Nil
  then show ?case by simp
next
  case (Cons rq rqs)
  from Cons.prems have fr: "fresh_uuids rqs (store_after (handle rq st))"
    and ok: "case rq of GenerateQr _ _ e \<Rightarrow> uuid_shaped (uuid e) \<and> st (uuid e) = None
             | VerifyQr _ _ \<Rightarrow> True"
    by simp_all
  from handle_keeps_record [OF Cons.prems(2) ok]
  obtain r1 where r1: "store_after (handle rq st) k = Some r1"
    "phoneNumber r1 = phoneNumber r" "expiresAt r1 = expiresAt r"
    "purpose r1 = purpose r" "device_id r1 = device_id r"
    "\<not> isValid r \<longrightarrow> \<not> isValid r1" "status r \<noteq> Pending \<longrightarrow> status r1 \<noteq> Pending"
    by blast
  from Cons.IH [OF fr r1(1)] r1(2-) show ?case by auto
qed

lemma run_append: "run (xs @ ys) st = run ys (run xs st)"
  by (induction xs arbitrary: st) simp_all

lemma fresh_uuids_append:
  "fresh_uuids (xs @ ys) st = (fresh_uuids xs st \<and> fresh_uuids ys (run xs st))"
  by (induction xs arbitrary: st) auto

lemma verify_qr_nan_record:
  assumes "st k = Some r" and "expiresAt r = NaN"
  shows "store_after (verify_qr token e st) k = Some r
       \<or> (isValid r \<and> status r = Pending
          \<and> store_after (verify_qr token e st) k = Some (r\<lparr>isValid := False, status := Verified\<rparr>))"
proof (cases token)
  case None
  then show ?thesis using assms by (simp add: verify_qr_None_store)
next
  case (Some t)
  show ?thesis
  proof (cases "k = t \<and> t \<noteq> []")
    case True
    then show ?thesis using assms Some
      by (auto simp: verify_qr_Own split: sum.splits post_reply.splits)
  next
    case False
    then show ?thesis using assms Some
      by (cases "t = []") (simp_all add: verify_qr_other_key verify_qr_empty_token)
  qed
qed

lemma run_nan_record:
  "fresh_uuids rqs st \<Longrightarrow> st k = Some r \<Longrightarrow> expiresAt r = NaN \<Longrightarrow>
   run rqs st k = Some r
   \<or> (isValid r \<and> status r = Pending
      \<and> run rqs st k = Some (r\<lparr>isValid := False, status := Verified\<rparr>))"
proof (induction rqs arbitrary: st r)
  case Nil
  then show ?case by simp
next
  case (Cons rq rqs)
  from Cons.prems have fr: "fresh_uuids rqs (store_after (handle rq st))" by simp
  have step: "store_after (handle rq st) k = Some r
       \<or> (isValid r \<and> status r = Pending
          \<and> store_after (handle rq st) k = Some (r\<lparr>isValid := False, status := Verified\<rparr>))"
  proof (cases rq)
    case (GenerateQr pn vt e)
    then show ?thesis
      using Cons.prems generate_qr_keeps_record [of st k r e pn vt] by simp
  next
    case (VerifyQr token e)
    then show ?thesis
      using Cons.prems(2,3) verify_qr_nan_record [of st k r token e] by simp
  qed
  then show ?case
  proof
    assume "store_after (handle rq st) k = Some r"
    from Cons.IH [OF fr this Cons.prems(3)] show ?thesis by simp
  next
    assume a: "isValid r \<and> status r = Pending
          \<and> store_after (handle rq st) k = Some (r\<lparr>isValid := False, status := Verified\<rparr>)"
    then have "store_after (handle rq st) k = Some (r\<lparr>isValid := False, status := Verified\<rparr>)"
      by simp
    from Cons.IH [OF fr this] Cons.prems(3) a show ?thesis by simp
  qed
qed

subsection \<open>Segments, events and any parsed body\<close>

lemma post_generate_qr_form:
  "post_generate_qr (form_field pn) (form_field vt) e st = generate_qr pn vt e st"
  by (cases pn; cases vt) (auto simp: post_generate_qr_def generate_qr_def Let_def)

lemma verify_qr_answered:
  "verify_begin token (clock e) st = Answered out st' \<Longrightarrow>
   verify_qr token e st = \<lparr>resp = out, store_after = st', calls = []\<rparr>"
  by (auto simp: verify_begin_def verify_qr_def
      split: option.splits if_splits property.splits)

lemma verify_qr_segments:
  assumes "verify_begin token (clock e) st = AwaitingGet t"
  shows "\<exists>r. token = Some t \<and> st t = Some r
           \<and> verify_qr token e st =
               (case verify_after_get r (stamp e) (get_reply e) of
                  Inl err \<Rightarrow> \<lparr>resp = Threw err, store_after = st, calls = [GetQrEvents]\<rparr>
                | Inr payload \<Rightarrow>
                    \<lparr>resp = fst (verify_after_post r (post_reply e)),
                     store_after = st(t \<mapsto> snd (verify_after_post r (post_reply e))),
                     calls = [GetQrEvents, PostQrEvent payload]\<rparr>)"
  using assms
  by (auto simp: verify_begin_def verify_qr_def get_property_def verify_after_get_def
      verify_after_post_def Let_def map_upd_triv
      split: option.splits if_splits sum.splits post_reply.splits)








section \<open>The claims\<close>

subsection \<open>C1: a pending token is verified, and then consumed\<close>




subsection \<open>C2: a token scanned after its expiry\<close>

text \<open>
  Claim C2, as stated, fails: the expiry check of line 116 comes before the check of
  \<open>isValid\<close> of line 121, so a second scan of an expired token, still past
  \<open>expiresAt\<close>, is answered 410 again and not 409. The sample record expires at time
  1000 and is scanned at times 2000 and 3000.
\<close>

theorem expired_twice_counterexample:
  "demo_store ''tok'' = Some demo_record \<and> status demo_record = Pending
   \<and> js_gt (Num 2000) (expiresAt demo_record)
   \<and> resp (verify_qr (Some ''tok'') (demo_env 2000 (GetResolved (JArray 3)) PostResolved)
        demo_store) = Responded 410 ExpiredQrText
   \<and> resp (verify_qr (Some ''tok'') (demo_env 3000 (GetResolved (JArray 3)) PostResolved)
        (store_after (verify_qr (Some ''tok'')
           (demo_env 2000 (GetResolved (JArray 3)) PostResolved) demo_store)))
       = Responded 410 ExpiredQrText
   \<and> status_sent (resp (verify_qr (Some ''tok'')
        (demo_env 3000 (GetResolved (JArray 3)) PostResolved)
        (store_after (verify_qr (Some ''tok'')
           (demo_env 2000 (GetResolved (JArray 3)) PostResolved) demo_store)))) \<noteq> Some 409"
  by (simp add: demo_defs verify_qr_def get_property_def)

text \<open>
  Claim C2, amended. For a token whose record has status Pending and whose
  \<open>expiresAt\<close> is past, the verification answers 410 (expired) and sets
  \<open>isValid = false\<close> and status Expired; every later verification of that token at
  a clock still past \<open>expiresAt\<close>, whatever requests are served in between, answers
  410 again and leaves \<open>isValid = false\<close> and status Expired.
\<close>

theorem expired_stays_expired:
  assumes "t \<noteq> []" and "st t = Some r" and "status r = Pending"
    and "js_gt (Num (clock e)) (expiresAt r)"
  shows "resp (verify_qr (Some t) e st) = Responded 410 ExpiredQrText
       \<and> store_after (verify_qr (Some t) e st)
           = st(t \<mapsto> r\<lparr>isValid := False, status := Expired\<rparr>)
       \<and> (\<forall>rqs e2.
             fresh_uuids rqs (store_after (verify_qr (Some t) e st))
             \<and> js_gt (Num (clock e2)) (expiresAt r)
             \<longrightarrow> resp (verify_qr (Some t) e2 (run rqs (store_after (verify_qr (Some t) e st))))
                   = Responded 410 ExpiredQrText
               \<and> (\<exists>r'. store_after
                     (verify_qr (Some t) e2 (run rqs (store_after (verify_qr (Some t) e st)))) t
                     = Some r' \<and> \<not> isValid r' \<and> status r' = Expired))"
proof -
  let ?s1 = "store_after (verify_qr (Some t) e st)"
  have first: "verify_qr (Some t) e st =
      \<lparr>resp = Responded 410 ExpiredQrText,
       store_after = st(t \<mapsto> r\<lparr>isValid := False, status := Expired\<rparr>), calls = []\<rparr>"
    using assms by (simp add: verify_qr_Own)
  have later: "resp (verify_qr (Some t) e2 (run rqs ?s1)) = Responded 410 ExpiredQrText
      \<and> (\<exists>r'. store_after (verify_qr (Some t) e2 (run rqs ?s1)) t = Some r'
            \<and> \<not> isValid r' \<and> status r' = Expired)"
    if fr: "fresh_uuids rqs ?s1" and past: "js_gt (Num (clock e2)) (expiresAt r)"
    for rqs e2
  proof -
    have "?s1 t = Some (r\<lparr>isValid := False, status := Expired\<rparr>)"
      by (simp add: first)
    from run_keeps_record [OF fr this]
    obtain r' where r': "run rqs ?s1 t = Some r'" "expiresAt r' = expiresAt r"
      by auto
    show ?thesis
      using assms(1) r' past by (simp add: verify_qr_Own)
  qed
  show ?thesis using first later by simp
qed

text \<open>
  Instance for the amended C2: the scans of the sample record at times 2000 and 3000.
\<close>

theorem expired_stays_expired_witness:
  "resp (verify_qr (Some ''tok'') (demo_env 2000 (GetResolved (JArray 3)) PostResolved)
        demo_store) = Responded 410 ExpiredQrText
   \<and> resp (verify_qr (Some ''tok'') (demo_env 3000 (GetResolved (JArray 3)) PostResolved)
        (store_after (verify_qr (Some ''tok'')
           (demo_env 2000 (GetResolved (JArray 3)) PostResolved) demo_store)))
       = Responded 410 ExpiredQrText"
proof -
  let ?e = "demo_env 2000 (GetResolved (JArray 3)) PostResolved"
  let ?e2 = "demo_env 3000 (GetResolved (JArray 3)) PostResolved"
  have h: "''tok'' \<noteq> []" "demo_store ''tok'' = Some demo_record"
    "status demo_record = Pending"
    "js_gt (Num (clock ?e)) (expiresAt demo_record)"
    by (simp_all add: demo_defs)
  note inst = expired_stays_expired [of "''tok''" demo_store demo_record ?e, OF h]
  from inst have a: "resp (verify_qr (Some ''tok'') ?e demo_store)
      = Responded 410 ExpiredQrText" by blast
  from inst have "fresh_uuids [] (store_after (verify_qr (Some ''tok'') ?e demo_store))
             \<and> js_gt (Num (clock ?e2)) (expiresAt demo_record)
             \<longrightarrow> resp (verify_qr (Some ''tok'') ?e2
                   (run [] (store_after (verify_qr (Some ''tok'') ?e demo_store))))
                   = Responded 410 ExpiredQrText" by blast
  then have b: "resp (verify_qr (Some ''tok'') ?e2
        (store_after (verify_qr (Some ''tok'') ?e demo_store))) = Responded 410 ExpiredQrText"
    by (simp add: demo_defs)
  from a b show ?thesis by simp
qed

subsection \<open>C3: a failed submission changes nothing\<close>



subsection \<open>C4: a failed pre-check aborts the verification\<close>



subsection \<open>C5: an unknown token\<close>

text \<open>
  Claim C5 says that a token with no record in the store is answered 404. The handler
  reads the store with \<open>qrTokenStore[token]\<close>, which also finds the properties every
  object inherits: with an empty store, the token \<open>constructor\<close> finds the function
  \<open>Object\<close>, passes the test of line 113, has no \<open>expiresAt\<close> (so line 116 compares
  with \<open>NaN\<close>) and no \<open>isValid\<close>, and is answered 409 "already used" by line 122.
  For every other unknown token the answer is 404 (lemma \<open>verify_qr_unknown_token\<close>).
\<close>

theorem inherited_key_not_404:
  "(Map.empty :: token_store) ''constructor'' = None
   \<and> resp (verify_qr (Some ''constructor'')
        (demo_env 500 (GetResolved (JArray 3)) PostResolved) Map.empty)
       = Responded 409 UsedQrText
   \<and> resp (verify_qr (Some ''constructor'')
        (demo_env 500 (GetResolved (JArray 3)) PostResolved) Map.empty)
       \<noteq> Responded 404 InvalidQrText"
  by (simp add: verify_qr_def get_property_def object_prototype_keys_def)

subsection \<open>C6: the statuses of the failures\<close>

text \<open>
  Claim C6, as stated, fails: a failed pre-check and a failed submission both leave the
  handler by an exception that nothing catches, so the handler sends a status for
  neither and the two cannot differ in the status it sends. The sample record at time
  500, once with the GET rejected and once with the POST rejected.
\<close>

theorem same_status_counterexample:
  "resp (verify_qr (Some ''tok'') (demo_env 500 (GetRejected ''down'') PostResolved) demo_store)
     = Threw (ListingUnavailable ''down'')
   \<and> resp (verify_qr (Some ''tok'')
        (demo_env 500 (GetResolved (JArray 3)) (PostRejected ''down'')) demo_store)
     = Threw (AxiosError ''down'')
   \<and> status_sent (resp (verify_qr (Some ''tok'')
        (demo_env 500 (GetRejected ''down'') PostResolved) demo_store))
     = status_sent (resp (verify_qr (Some ''tok'')
        (demo_env 500 (GetResolved (JArray 3)) (PostRejected ''down'')) demo_store))"
  by (simp add: demo_defs verify_qr_def get_property_def)

text \<open>
  Claim C6, amended. For a token that is not the name of an inherited property, the
  failures the handler answers itself have statuses of their own, each sent for exactly
  one cause: 404 exactly when the store has no record, 410 exactly when the clock is
  past \<open>expiresAt\<close>, 409 exactly when the clock is not past \<open>expiresAt\<close> and the
  record has \<open>isValid\<close> false or a status other than Pending. A failed pre-check and
  a failed submission are told apart by the exception the handler ends with (the one of
  line 140, or the rejection of the POST), and in both cases the handler sends no status.
\<close>

theorem failure_statuses:
  assumes "t \<noteq> []" and "t \<notin> set object_prototype_keys"
  shows "(status_sent (resp (verify_qr (Some t) e st)) = Some 404 \<longleftrightarrow> st t = None)
       \<and> (status_sent (resp (verify_qr (Some t) e st)) = Some 410 \<longleftrightarrow>
            (\<exists>r. st t = Some r \<and> js_gt (Num (clock e)) (expiresAt r)))
       \<and> (status_sent (resp (verify_qr (Some t) e st)) = Some 409 \<longleftrightarrow>
            (\<exists>r. st t = Some r \<and> \<not> js_gt (Num (clock e)) (expiresAt r)
               \<and> (\<not> isValid r \<or> status r \<noteq> Pending)))
       \<and> ((\<exists>m. resp (verify_qr (Some t) e st) = Threw (ListingUnavailable m)) \<longleftrightarrow>
            (\<exists>r. st t = Some r \<and> \<not> js_gt (Num (clock e)) (expiresAt r)
               \<and> isValid r \<and> status r = Pending \<and> isl (precheck (get_reply e))))
       \<and> ((\<exists>m. resp (verify_qr (Some t) e st) = Threw (AxiosError m)) \<longleftrightarrow>
            (\<exists>r. st t = Some r \<and> \<not> js_gt (Num (clock e)) (expiresAt r)
               \<and> isValid r \<and> status r = Pending \<and> \<not> isl (precheck (get_reply e))
               \<and> (\<exists>m. post_reply e = PostRejected m)))
       \<and> (status_sent (resp (verify_qr (Some t) e st)) = None \<longleftrightarrow>
            (\<exists>x. resp (verify_qr (Some t) e st) = Threw x))"
proof (cases "st t")
  case None
  then show ?thesis using assms by (simp add: verify_qr_def get_property_def)
next
  case (Some r)
  have pc: "\<And>m. precheck (get_reply e) \<noteq> Inl (AxiosError m)"
    by (cases "get_reply e" rule: precheck.cases) (simp_all add: Let_def)
  have pl: "\<And>x. precheck (get_reply e) = Inl x \<Longrightarrow> \<exists>m. x = ListingUnavailable m"
    by (cases "get_reply e" rule: precheck.cases) (auto simp: Let_def)
  show ?thesis
    using assms(1) Some pc pl
    by (auto simp: verify_qr_Own split: sum.splits post_reply.splits)
qed

text \<open>
  Instance for the amended C6: an expired record, an unknown token and a consumed record.
\<close>

theorem failure_statuses_witness:
  "status_sent (resp (verify_qr (Some ''tok'')
        (demo_env 2000 (GetResolved (JArray 3)) PostResolved) demo_store)) = Some 410
   \<and> status_sent (resp (verify_qr (Some ''nope'')
        (demo_env 2000 (GetResolved (JArray 3)) PostResolved) demo_store)) = Some 404
   \<and> status_sent (resp (verify_qr (Some ''tok'')
        (demo_env 500 (GetResolved (JArray 3)) PostResolved)
        (demo_store(''tok'' \<mapsto> demo_record\<lparr>isValid := False\<rparr>)))) = Some 409"
proof -
  let ?E = "demo_env 2000 (GetResolved (JArray 3)) PostResolved"
  let ?E5 = "demo_env 500 (GetResolved (JArray 3)) PostResolved"
  let ?S = "demo_store(''tok'' \<mapsto> demo_record\<lparr>isValid := False\<rparr>)"
  have h: "''tok'' \<noteq> []" "''tok'' \<notin> set object_prototype_keys"
    by (simp_all add: object_prototype_keys_def)
  have g: "''nope'' \<noteq> []" "''nope'' \<notin> set object_prototype_keys"
    by (simp_all add: object_prototype_keys_def)
  have a: "\<exists>r. demo_store ''tok'' = Some r \<and> js_gt (Num (clock ?E)) (expiresAt r)"
    by (simp add: demo_defs)
  have b: "demo_store ''nope'' = None"
    by (simp add: demo_defs)
  have c: "\<exists>r. ?S ''tok'' = Some r \<and> \<not> js_gt (Num (clock ?E5)) (expiresAt r)
       \<and> (\<not> isValid r \<or> status r \<noteq> Pending)"
    by (simp add: demo_defs)
  from failure_statuses [of "''tok''" ?E demo_store, OF h] a
  have 1: "status_sent (resp (verify_qr (Some ''tok'') ?E demo_store)) = Some 410" by blast
  from failure_statuses [of "''nope''" ?E demo_store, OF g] b
  have 2: "status_sent (resp (verify_qr (Some ''nope'') ?E demo_store)) = Some 404" by blast
  from failure_statuses [of "''tok''" ?E5 ?S, OF h] c
  have 3: "status_sent (resp (verify_qr (Some ''tok'') ?E5 ?S)) = Some 409" by blast
  from 1 2 3 show ?thesis by simp
qed

subsection \<open>C7: the flags of a record only move forward\<close>

text \<open>
  Claim C7. Along every sequence of issuance and verification requests in which each
  issued uuid is new, a record present at some point is present at every later point,
  once its \<open>isValid\<close> is false it stays false, and once its status is not Pending
  it is never Pending again. (A Verified record scanned after its expiry becomes Expired:
  a move between the two final states, not back to Pending.)
\<close>

theorem record_flags_monotone:
  assumes "fresh_uuids (rqs1 @ rqs2) st" and "run rqs1 st k = Some r"
  shows "\<exists>r'. run (rqs1 @ rqs2) st k = Some r'
           \<and> (\<not> isValid r \<longrightarrow> \<not> isValid r')
           \<and> (status r \<noteq> Pending \<longrightarrow> status r' \<noteq> Pending)"
proof -
  from assms(1) have "fresh_uuids rqs2 (run rqs1 st)"
    by (simp add: fresh_uuids_append)
  from run_keeps_record [OF this assms(2)] show ?thesis
    by (auto simp: run_append)
qed

text \<open>
  Instance for C7: a token is issued and verified; later it is scanned past its
  expiry and another token is issued. The record stays invalid and not Pending.
\<close>

theorem record_flags_monotone_witness:
  "(\<exists>r'. run ([GenerateQr (Some ''010-1234-5678'') (Some ''1'')
                  (demo_gen (QrResolved ''data:image/png'') SmsResolved),
               VerifyQr (Some demo_uuid) (demo_env 2000 (GetResolved (JArray 0)) PostResolved)]
              @ [VerifyQr (Some demo_uuid)
                   (demo_env 99000 (GetResolved (JArray 1)) PostResolved),
                 GenerateQr (Some ''010-1234-5678'') (Some ''1'')
                   ((demo_gen (QrResolved ''data:image/png'') SmsResolved)\<lparr>uuid := demo_uuid2\<rparr>)])
            Map.empty demo_uuid = Some r'
         \<and> \<not> isValid r' \<and> status r' \<noteq> Pending)"
proof -
  let ?G = "demo_gen (QrResolved ''data:image/png'') SmsResolved"
  let ?rqs1 = "[GenerateQr (Some ''010-1234-5678'') (Some ''1'') ?G,
               VerifyQr (Some demo_uuid) (demo_env 2000 (GetResolved (JArray 0)) PostResolved)]"
  let ?rqs2 = "[VerifyQr (Some demo_uuid) (demo_env 99000 (GetResolved (JArray 1)) PostResolved),
                GenerateQr (Some ''010-1234-5678'') (Some ''1'') (?G\<lparr>uuid := demo_uuid2\<rparr>)]"
  let ?R = "\<lparr>phoneNumber = ''01012345678'', expiresAt = Num 61000, isValid = False,
         purpose = ''Visitor'', device_id = ''device'', status = Verified\<rparr>"
  have p1: "parseInt ''1'' = Num 1" by (simp add: eval_defs)
  have g1: "store_after (generate_qr (Some ''010-1234-5678'') (Some ''1'') ?G Map.empty)
      = Map.empty(demo_uuid \<mapsto> ?R\<lparr>isValid := True, status := Pending\<rparr>)"
    by (simp add: generate_qr_def Let_def gen_defs p1)
  have r1: "run ?rqs1 Map.empty = Map.empty(demo_uuid \<mapsto> ?R)"
    by (simp add: g1) (simp add: verify_qr_def get_property_def demo_defs demo_uuid_def)
  have r2: "store_after (verify_qr (Some demo_uuid)
        (demo_env 99000 (GetResolved (JArray 1)) PostResolved) (Map.empty(demo_uuid \<mapsto> ?R)))
      = Map.empty(demo_uuid \<mapsto> ?R\<lparr>status := Expired\<rparr>)"
    by (simp add: verify_qr_def get_property_def demo_defs demo_uuid_def)
  have fr: "fresh_uuids (?rqs1 @ ?rqs2) Map.empty"
    by (simp add: eval_defs)
  have at: "run ?rqs1 Map.empty demo_uuid = Some ?R"
    by (simp only: r1) simp
  from record_flags_monotone [OF fr at] show ?thesis by simp
qed

subsection \<open>C8: issuance\<close>




subsection \<open>C9: a failed delivery does not undo the record\<close>

text \<open>
  Claim C9. When the rendering of the QR image fails, or the rendering succeeds and the
  dispatch of the message fails, the request is answered by the \<open>catch\<close> block with
  status 500, and the store is the one a successful delivery would have left: the new
  record is there, valid and Pending, and every other key is untouched.
\<close>

theorem delivery_failure_keeps_record:
  assumes "\<not> falsy pn" and "\<not> falsy vt" and "uuid_shaped (uuid e)"
    and "qr_reply e = QrRejected err
         \<or> (\<exists>d. qr_reply e = QrResolved d \<and> sms_reply e = SmsRejected err)"
  shows "resp (generate_qr pn vt e st) = catch_generate err
       \<and> status_sent (resp (generate_qr pn vt e st)) = Some 500
       \<and> store_after (generate_qr pn vt e st)
           = store_after (generate_qr pn vt (e\<lparr>qr_reply := QrResolved d0, sms_reply := SmsResolved\<rparr>) st)
       \<and> (\<exists>r. store_after (generate_qr pn vt e st) (uuid e) = Some r
             \<and> isValid r \<and> status r = Pending)
       \<and> (\<forall>k. k \<noteq> uuid e \<longrightarrow> store_after (generate_qr pn vt e st) k = st k)"
proof -
  from assms(1,2) obtain p v where pv: "pn = Some p" "p \<noteq> []" "vt = Some v" "v \<noteq> []"
    by (auto simp: not_falsy)
  have r: "resp (generate_qr pn vt e st) = catch_generate err"
    using pv assms(4) by (auto simp: generate_qr_def Let_def)
  have c: "status_sent (catch_generate err) = Some 500"
    by (cases err) simp
  show ?thesis using pv r c by (simp add: generate_qr_stores)
qed

text \<open>
  Instance for C9: the message provider rejects the dispatch.
\<close>

theorem delivery_failure_keeps_record_witness:
  "resp (generate_qr (Some ''010-1234-5678'') (Some ''5'')
      (demo_gen (QrResolved ''data:image/png'') (SmsRejected (JsError False ''no credit'')))
      Map.empty) = Responded 500 ServerFailureText
   \<and> store_after (generate_qr (Some ''010-1234-5678'') (Some ''5'')
      (demo_gen (QrResolved ''data:image/png'') (SmsRejected (JsError False ''no credit'')))
      Map.empty)
     = store_after (generate_qr (Some ''010-1234-5678'') (Some ''5'')
      (demo_gen (QrResolved ''data:image/png'') SmsResolved) Map.empty)"
proof -
  let ?G = "demo_gen (QrResolved ''data:image/png'') (SmsRejected (JsError False ''no credit''))"
  have h: "\<not> falsy (Some ''010-1234-5678'')" "\<not> falsy (Some ''5'')" "uuid_shaped (uuid ?G)"
    "qr_reply ?G = QrRejected (JsError False ''no credit'')
     \<or> (\<exists>d. qr_reply ?G = QrResolved d \<and> sms_reply ?G = SmsRejected (JsError False ''no credit''))"
    by (simp_all add: falsy_def gen_defs uuid_shaped_def)
  from delivery_failure_keeps_record
    [of "Some ''010-1234-5678''" "Some ''5''" ?G "JsError False ''no credit''" Map.empty
       "''data:image/png''", OF h]
  show ?thesis by (simp add: gen_defs)
qed

subsection \<open>C10: a duration that is not a number\<close>

text \<open>
  Claim C10. When \<open>parseInt\<close> of the duration is \<open>NaN\<close>, the stored record has
  \<open>expiresAt = NaN\<close>. After any sequence of later requests (issued uuids being new),
  the record is either unchanged or the Verified one; no verification of the token, at
  any clock, answers 410 or leaves it Expired; and as long as the record is unchanged, a
  verification with a completed pre-check and an accepted submission succeeds, at any
  clock.
\<close>

theorem nan_expiry_never_expires:
  assumes "p \<noteq> []" and "v \<noteq> []" and "parseInt v = NaN" and "uuid_shaped (uuid g)"
    and "fresh_uuids rqs (store_after (generate_qr (Some p) (Some v) g st))"
  shows "\<exists>r. store_after (generate_qr (Some p) (Some v) g st) (uuid g) = Some r
           \<and> expiresAt r = NaN \<and> isValid r \<and> status r = Pending
           \<and> (run rqs (store_after (generate_qr (Some p) (Some v) g st)) (uuid g) = Some r
              \<or> run rqs (store_after (generate_qr (Some p) (Some v) g st)) (uuid g)
                  = Some (r\<lparr>isValid := False, status := Verified\<rparr>))
           \<and> (\<forall>e. status_sent (resp (verify_qr (Some (uuid g)) e
                      (run rqs (store_after (generate_qr (Some p) (Some v) g st))))) \<noteq> Some 410
                 \<and> (\<exists>r'. store_after (verify_qr (Some (uuid g)) e
                      (run rqs (store_after (generate_qr (Some p) (Some v) g st)))) (uuid g)
                        = Some r' \<and> status r' \<noteq> Expired))
           \<and> (\<forall>e n. run rqs (store_after (generate_qr (Some p) (Some v) g st)) (uuid g) = Some r
                   \<and> precheck (get_reply e) = Inr n \<and> post_reply e = PostResolved
                 \<longrightarrow> resp (verify_qr (Some (uuid g)) e
                       (run rqs (store_after (generate_qr (Some p) (Some v) g st))))
                     = Responded 200 (SuccessPage (phoneNumber r)))"
proof -
  let ?s1 = "store_after (generate_qr (Some p) (Some v) g st)"
  let ?r = "\<lparr>phoneNumber = filter (\<lambda>c. c \<noteq> CHR ''-'') p, expiresAt = NaN,
             isValid = True, purpose = ''Visitor'', device_id = ''device'', status = Pending\<rparr>"
  have ne: "uuid g \<noteq> []" using assms(4) by (rule uuid_shaped_nonempty)
  have s1: "?s1 (uuid g) = Some ?r"
    using assms(1-3) by (simp add: generate_qr_stores)
  have nan: "expiresAt ?r = NaN" by simp
  from run_nan_record [OF assms(5) s1 nan]
  have alt: "run rqs ?s1 (uuid g) = Some ?r
      \<or> run rqs ?s1 (uuid g) = Some (?r\<lparr>isValid := False, status := Verified\<rparr>)"
    by blast
  have never: "status_sent (resp (verify_qr (Some (uuid g)) e (run rqs ?s1))) \<noteq> Some 410
      \<and> (\<exists>r'. store_after (verify_qr (Some (uuid g)) e (run rqs ?s1)) (uuid g) = Some r'
            \<and> status r' \<noteq> Expired)" for e
    using alt ne by (auto simp: verify_qr_Own split: sum.splits post_reply.splits)
  have still: "resp (verify_qr (Some (uuid g)) e (run rqs ?s1))
      = Responded 200 (SuccessPage (phoneNumber ?r))"
    if "run rqs ?s1 (uuid g) = Some ?r" "precheck (get_reply e) = Inr n"
      "post_reply e = PostResolved" for e n
    using that ne by (simp add: verify_qr_Own)
  show ?thesis
    apply (rule exI [of _ ?r])
    using s1 alt never still by simp
qed

text \<open>
  Instance for C10: the duration \<open>abc\<close>; the token is scanned with the event log
  down, and verified long after.
\<close>

theorem nan_expiry_never_expires_witness:
  "parseInt ''abc'' = NaN
   \<and> resp (verify_qr (Some demo_uuid)
        (demo_env 1000000000000000000 (GetResolved (JArray 0)) PostResolved)
        (run [VerifyQr (Some demo_uuid)
                (demo_env 1000000000000000 (GetRejected ''down'') PostResolved)]
           (store_after (generate_qr (Some ''010-1234-5678'') (Some ''abc'')
              (demo_gen (QrResolved ''data:image/png'') SmsResolved) Map.empty))))
       = Responded 200 (SuccessPage ''01012345678'')"
proof -
  let ?G = "demo_gen (QrResolved ''data:image/png'') SmsResolved"
  let ?s1 = "store_after (generate_qr (Some ''010-1234-5678'') (Some ''abc'') ?G Map.empty)"
  let ?rqs = "[VerifyQr (Some demo_uuid)
                (demo_env 1000000000000000 (GetRejected ''down'') PostResolved)]"
  let ?E = "demo_env 1000000000000000000 (GetResolved (JArray 0)) PostResolved"
  let ?R = "\<lparr>phoneNumber = ''01012345678'', expiresAt = NaN, isValid = True,
         purpose = ''Visitor'', device_id = ''device'', status = Pending\<rparr>"
  have s1: "?s1 = Map.empty(demo_uuid \<mapsto> ?R)"
    by (simp add: generate_qr_def Let_def gen_defs parseInt_abc)
  have h: "''010-1234-5678'' \<noteq> []" "''abc'' \<noteq> []" "parseInt ''abc'' = NaN"
    "uuid_shaped (uuid ?G)" "fresh_uuids ?rqs ?s1"
    by (simp_all add: parseInt_abc gen_defs uuid_shaped_def)
  have u: "uuid ?G = demo_uuid" by (simp add: gen_defs)
  have ran: "run ?rqs ?s1 demo_uuid = Some ?R"
    unfolding s1 by (simp add: verify_qr_def get_property_def demo_defs demo_uuid_def)
  from nan_expiry_never_expires [of "''010-1234-5678''" "''abc''" ?G ?rqs Map.empty, OF h]
  obtain r where r: "?s1 (uuid ?G) = Some r"
    "\<forall>e n. run ?rqs ?s1 (uuid ?G) = Some r
        \<and> precheck (get_reply e) = Inr n \<and> post_reply e = PostResolved
        \<longrightarrow> resp (verify_qr (Some (uuid ?G)) e (run ?rqs ?s1))
             = Responded 200 (SuccessPage (phoneNumber r))"
    by blast
  from r(1) have req: "r = ?R" unfolding u s1 by simp
  have "precheck (get_reply ?E) = Inr 0 \<and> post_reply ?E = PostResolved"
    by (simp add: demo_defs)
  with r(2) ran have "resp (verify_qr (Some demo_uuid) ?E (run ?rqs ?s1))
      = Responded 200 (SuccessPage (phoneNumber r))"
    unfolding u req by blast
  then show ?thesis using h(3) by (simp add: req)
qed

end
